theory Spec2Isabelle
  imports Complex_Main "HOL-Library.Sublist"
begin

section \<open>JavaScript strings\<close>

text \<open>
  A string is a list of characters, and a character of type \<open>char\<close> stands for the
  UTF-16 code unit of the same number: the strings of the model are the JavaScript
  strings whose code units are all below 256 (ASCII and the rest of Latin-1). Strings
  with other code units are outside the model.

  On these strings \<open>toLowerCase\<close> works character by character: the capitals
  \<open>A\<close>..\<open>Z\<close> (65..90) and the Latin-1 capitals U+00C0..U+00DE other than the
  multiplication sign U+00D7 (192..222 without 215) move up by 32, every other
  character stays. \<open>includes\<close> is the contiguous-substring test. \<open>trim\<close> removes
  white space and line terminators from both ends: tab, line feed, vertical tab, form
  feed, carriage return, space and the no-break space U+00A0.
\<close>

definition lowerChar :: "char \<Rightarrow> char" where
  "lowerChar c =
     (let n = (of_char c :: nat)
      in if (65 \<le> n \<and> n \<le> 90) \<or> (192 \<le> n \<and> n \<le> 222 \<and> n \<noteq> 215)
         then char_of (n + 32) else c)"

definition toLowerCase :: "string \<Rightarrow> string" where
  "toLowerCase s = map lowerChar s"

text \<open>\<open>s.includes(t)\<close>: \<open>t\<close> occurs in \<open>s\<close> as a contiguous run of characters.\<close>

definition includes_str :: "string \<Rightarrow> string \<Rightarrow> bool" where
  "includes_str s t = sublist t s"

definition isWhiteSpace :: "char \<Rightarrow> bool" where
  "isWhiteSpace c = ((of_char c :: nat) \<in> {9, 10, 11, 12, 13, 32, 160})"

definition trim :: "string \<Rightarrow> string" where
  "trim s = rev (dropWhile isWhiteSpace (rev (dropWhile isWhiteSpace s)))"

text \<open>Truthiness of a string value (\<open>!s\<close> is true exactly for the empty string).\<close>

definition truthy :: "string \<Rightarrow> bool" where
  "truthy s = (s \<noteq> [])"

section \<open>Data served by the API, as the pages read it\<close>

text \<open>The identity the auth context holds: \<open>{id, name, role}\<close>.\<close>

record user =
  user_id :: string
  name :: string
  role :: string

text \<open>
  A report as the pages read it. \<open>description\<close>, \<open>created_by_id\<close> and
  \<open>assigned_to_name\<close> may be absent (null or undefined); \<open>title\<close> is required by the
  create form and is always a string.
\<close>

record report =
  report_id :: string
  title :: string
  description :: "string option"
  category :: string
  status :: string
  priority :: string
  created_by_id :: "string option"
  assigned_to_name :: "string option"

section \<open>Dashboard.js\<close>

text \<open>
  The predicate of \<open>filteredReports\<close>:
  \<^verbatim>\<open>report.title.toLowerCase().includes(searchTerm.toLowerCase()) ||
  report.description?.toLowerCase().includes(searchTerm.toLowerCase())\<close>.
  With an absent description the optional chain yields undefined, which the filter
  reads as false.
\<close>

definition matchesSearch :: "string \<Rightarrow> report \<Rightarrow> bool" where
  "matchesSearch searchTerm r =
     (includes_str (toLowerCase (title r)) (toLowerCase searchTerm) \<or>
      (case description r of
         None \<Rightarrow> False
       | Some d \<Rightarrow> includes_str (toLowerCase d) (toLowerCase searchTerm)))"

definition filteredReports :: "report list \<Rightarrow> string \<Rightarrow> report list" where
  "filteredReports reports searchTerm = filter (matchesSearch searchTerm) reports"

text \<open>
  \<^verbatim>\<open>const myReports = user ? filteredReports.filter(r => r.created_by_id === user.id) : [];\<close>
\<close>

definition myReports :: "user option \<Rightarrow> report list \<Rightarrow> string \<Rightarrow> report list" where
  "myReports usr reports searchTerm =
     (case usr of
        None \<Rightarrow> []
      | Some u \<Rightarrow>
          filter (\<lambda>r. created_by_id r = Some (user_id u)) (filteredReports reports searchTerm))"

section \<open>AdminDashboard.js: the report table's filter\<close>

text \<open>
  \<^verbatim>\<open>const matchesStatus = !statusFilter || statusFilter === 'all' || report.status === statusFilter;\<close>
  and the same for the category. A filter value that is empty or \<open>all\<close> selects
  every report.
\<close>

definition matchesStatus :: "string \<Rightarrow> report \<Rightarrow> bool" where
  "matchesStatus statusFilter r =
     (\<not> truthy statusFilter \<or> statusFilter = ''all'' \<or> status r = statusFilter)"

definition matchesCategory :: "string \<Rightarrow> report \<Rightarrow> bool" where
  "matchesCategory categoryFilter r =
     (\<not> truthy categoryFilter \<or> categoryFilter = ''all'' \<or> category r = categoryFilter)"

definition adminFilteredReports ::
  "report list \<Rightarrow> string \<Rightarrow> string \<Rightarrow> string \<Rightarrow> report list" where
  "adminFilteredReports reports searchTerm statusFilter categoryFilter =
     filter (\<lambda>r. matchesSearch searchTerm r \<and> matchesStatus statusFilter r \<and>
                 matchesCategory categoryFilter r) reports"

section \<open>What a handler does besides updating state\<close>

text \<open>
  A request carries its URL (for the application's own API, the path below the API
  base URL), the fields of its body and its authorisation header: none, or
  \<open>Bearer\<close> followed by the token of the auth context (null when nobody is signed
  in).
\<close>

datatype auth = No_auth | Bearer "string option"

datatype request =
  GET string auth
| POST string "(string \<times> string) list" auth
| PUT string "(string \<times> string) list" auth

datatype effect =
  Request request
| Toast_error string
| Toast_success string
| Navigate string
| Console_error string

fun is_request :: "effect \<Rightarrow> bool" where
  "is_request (Request _) = True"
| "is_request _ = False"

definition requests_of :: "effect list \<Rightarrow> effect list" where
  "requests_of es = filter is_request es"

section \<open>CreateReport.js\<close>

subsection \<open>Number.prototype.toFixed\<close>

text \<open>
  A finite JavaScript number is a rational. \<open>x.toFixed(f)\<close> for \<open>|x| < 10^21\<close> takes the
  integer \<open>n\<close> nearest to \<open>|x| * 10^f\<close> (the larger one on a tie), writes its decimal
  digits, pads them with zeros to at least \<open>f + 1\<close> characters and puts the point
  before the last \<open>f\<close>; a negative \<open>x\<close> gets a minus sign. From \<open>10^21\<close> on the result is
  the number's ordinary string, which is the parameter \<open>toStr\<close> here.
\<close>

definition digitChar :: "nat \<Rightarrow> char" where
  "digitChar d = ''0123456789'' ! d"

fun digits :: "nat \<Rightarrow> string" where
  "digits n = (if n < 10 then [digitChar n] else digits (n div 10) @ [digitChar (n mod 10)])"

definition toFixed :: "(rat \<Rightarrow> string) \<Rightarrow> rat \<Rightarrow> nat \<Rightarrow> string" where
  "toFixed toStr x f =
     (if \<bar>x\<bar> \<ge> 10 ^ 21 then toStr x
      else
        let s = (if x < 0 then ''-'' else []);
            n = nat \<lfloor>\<bar>x\<bar> * 10 ^ f + 1 / 2\<rfloor>;
            m = digits n
        in if f \<noteq> 0
           then
             let m2 = (if length m \<le> f then replicate (f + 1 - length m) (CHR ''0'') @ m else m);
                 k = length m2
             in s @ take (k - f) m2 @ ''.'' @ drop (k - f) m2
           else s @ m)"

subsection \<open>reverseGeocode\<close>

text \<open>
  The answer of the geocoding service: the request failed, or it returned a body whose
  \<open>display_name\<close> is a string or is missing.
\<close>

datatype geocode_response = Geocode_failed | Geocode_ok "string option"

text \<open>
  \<^verbatim>\<open>try { const response = await axios.get(...); setAddress(response.data.display_name); }
  catch (error) { console.error(...); setAddress(`${lat.toFixed(6)}, ${lng.toFixed(6)}`); }\<close>
  The result is the value given to \<open>setAddress\<close> and what the call did besides.
\<close>

definition reverseGeocode ::
  "(rat \<Rightarrow> string) \<Rightarrow> rat \<Rightarrow> rat \<Rightarrow> geocode_response \<Rightarrow> string option \<times> effect list" where
  "reverseGeocode toStr lat lng response =
     (let req = Request (GET (''https://nominatim.openstreetmap.org/reverse?format=json&lat='' @
                   toStr lat @ ''&lon='' @ toStr lng) No_auth)
      in case response of
           Geocode_ok display_name \<Rightarrow> (display_name, [req])
         | Geocode_failed \<Rightarrow>
             (Some (toFixed toStr lat 6 @ '', '' @ toFixed toStr lng 6),
              [req, Console_error ''Reverse geocoding failed:'']))"

text \<open>
  The form's location state, and a click on the map:
  \<^verbatim>\<open>setPosition([e.latlng.lat, e.latlng.lng]); reverseGeocode(e.latlng.lat, e.latlng.lng, setAddress);\<close>
\<close>

record location_state =
  position :: "(rat \<times> rat) option"
  address :: "string option"

definition mapClick ::
  "(rat \<Rightarrow> string) \<Rightarrow> rat \<Rightarrow> rat \<Rightarrow> geocode_response \<Rightarrow> location_state \<Rightarrow>
   location_state \<times> effect list" where
  "mapClick toStr lat lng response st =
     (let (a, es) = reverseGeocode toStr lat lng response
      in (st\<lparr>position := Some (lat, lng), address := a\<rparr>, es))"

subsection \<open>The photo list\<close>

text \<open>
  \<^verbatim>\<open>if (images.length + files.length > 5) { toast.error('Maximum 5 images allowed'); return; }
  setImages([...images, ...files]);\<close>
\<close>

definition handleImageSelect :: "'f list \<Rightarrow> 'f list \<Rightarrow> 'f list \<times> effect list" where
  "handleImageSelect images files =
     (if length images + length files > 5
      then (images, [Toast_error ''Maximum 5 images allowed''])
      else (images @ files, []))"

text \<open>\<^verbatim>\<open>setImages(images.filter((_, i) => i !== index));\<close>\<close>

definition removeImage :: "'f list \<Rightarrow> nat \<Rightarrow> 'f list" where
  "removeImage images index =
     map snd (filter (\<lambda>(i, _). i \<noteq> index) (enumerate 0 images))"

text \<open>
  What a user can do to the photo list: choose files in the picker, or press the
  remove button of a preview. The list starts empty.
\<close>

datatype 'f image_event = Select_files "'f list" | Remove_image nat

fun image_step :: "'f list \<Rightarrow> 'f image_event \<Rightarrow> 'f list" where
  "image_step images (Select_files files) = fst (handleImageSelect images files)"
| "image_step images (Remove_image index) = removeImage images index"

definition images_after :: "'f image_event list \<Rightarrow> 'f list" where
  "images_after events = foldl image_step [] events"

section \<open>ReportDetail.js\<close>

text \<open>A comment as the page reads it.\<close>

record comment =
  comment_id :: string
  user_name :: string
  comment_text :: string

text \<open>
  The component's state. \<open>loading\<close> is named \<open>loadingReport\<close> here, the admin
  dashboard having a \<open>loading\<close> of its own.
\<close>

record detail_state =
  report :: "report option"
  comments :: "comment list"
  newComment :: string
  newStatus :: string
  statusComment :: string
  loadingReport :: bool

text \<open>
  The handlers take, besides the state, the answers of the requests they make (whether
  a write succeeded, the data a read returned or \<open>None\<close> when it failed) and return
  the new state and what they did, in the order in which it happens. A read is in two
  parts, the request it sends when it is called and what it does once the answer is
  there: a handler that calls a read without awaiting it goes on (to its success
  toast) before the read settles.

  \<^verbatim>\<open>try { const response = await axios.get(`${API_URL}/reports/${id}`);
    setReport(response.data); setNewStatus(response.data.status); }
  catch (error) { toast.error('Failed to fetch report'); } finally { setLoading(false); }\<close>
\<close>

definition fetchReport_request :: "string \<Rightarrow> effect" where
  "fetchReport_request rid = Request (GET (''/reports/'' @ rid) No_auth)"

definition fetchReport_settled :: "report option \<Rightarrow> detail_state \<Rightarrow> detail_state \<times> effect list" where
  "fetchReport_settled response st =
     (case response of
        Some data \<Rightarrow>
          (st\<lparr>report := Some data, newStatus := status data, loadingReport := False\<rparr>, [])
      | None \<Rightarrow> (st\<lparr>loadingReport := False\<rparr>, [Toast_error ''Failed to fetch report'']))"

definition fetchReport :: "string \<Rightarrow> report option \<Rightarrow> detail_state \<Rightarrow> detail_state \<times> effect list" where
  "fetchReport rid response st =
     (let (st', es) = fetchReport_settled response st
      in (st', fetchReport_request rid # es))"

text \<open>
  \<^verbatim>\<open>try { const response = await axios.get(`${API_URL}/reports/${id}/comments`);
    setComments(response.data); }
  catch (error) { console.error('Failed to fetch comments:', error); }\<close>
\<close>

definition fetchComments_request :: "string \<Rightarrow> effect" where
  "fetchComments_request rid = Request (GET (''/reports/'' @ rid @ ''/comments'') No_auth)"

definition fetchComments_settled ::
  "comment list option \<Rightarrow> detail_state \<Rightarrow> detail_state \<times> effect list" where
  "fetchComments_settled response st =
     (case response of
        Some data \<Rightarrow> (st\<lparr>comments := data\<rparr>, [])
      | None \<Rightarrow> (st, [Console_error ''Failed to fetch comments:'']))"

definition fetchComments ::
  "string \<Rightarrow> comment list option \<Rightarrow> detail_state \<Rightarrow> detail_state \<times> effect list" where
  "fetchComments rid response st =
     (let (st', es) = fetchComments_settled response st
      in (st', fetchComments_request rid # es))"

text \<open>
  \<^verbatim>\<open>if (!user) { toast.error('Please login to add comments'); return; }
  try { await axios.post(`${API_URL}/reports/${id}/comments`, { text: newComment }, ...);
    setNewComment(''); fetchComments(); toast.success('Comment added'); }
  catch (error) { toast.error('Failed to add comment'); }\<close>
  \<open>fetchComments()\<close> is not awaited: its request goes out, the success toast is
  shown, and only then does the read settle.
\<close>

definition handleAddComment ::
  "user option \<Rightarrow> string option \<Rightarrow> string \<Rightarrow> bool \<Rightarrow> comment list option \<Rightarrow>
   detail_state \<Rightarrow> detail_state \<times> effect list" where
  "handleAddComment usr token rid post_ok refetched st =
     (case usr of
        None \<Rightarrow> (st, [Toast_error ''Please login to add comments''])
      | Some u \<Rightarrow>
          let post = Request (POST (''/reports/'' @ rid @ ''/comments'')
                        [(''text'', newComment st)] (Bearer token))
          in if post_ok
             then
               let (st', es) = fetchComments_settled refetched (st\<lparr>newComment := []\<rparr>)
               in (st', post # fetchComments_request rid # Toast_success ''Comment added'' # es)
             else (st, [post, Toast_error ''Failed to add comment'']))"

text \<open>
  \<^verbatim>\<open>if (!user || (user.role !== 'admin' && user.role !== 'technician')) {
    toast.error('You do not have permission to update status'); return; }
  try { await axios.put(`${API_URL}/reports/${id}/status`,
      { status: newStatus, comment: statusComment }, ...);
    setStatusComment(''); fetchReport(); toast.success('Status updated'); }
  catch (error) { toast.error('Failed to update status'); }\<close>
  \<open>fetchReport()\<close> is not awaited either.
\<close>

definition is_staff :: "user option \<Rightarrow> bool" where
  "is_staff usr =
     (case usr of None \<Rightarrow> False | Some u \<Rightarrow> role u = ''admin'' \<or> role u = ''technician'')"

definition handleStatusUpdate ::
  "user option \<Rightarrow> string option \<Rightarrow> string \<Rightarrow> bool \<Rightarrow> report option \<Rightarrow>
   detail_state \<Rightarrow> detail_state \<times> effect list" where
  "handleStatusUpdate usr token rid put_ok refetched st =
     (if (case usr of None \<Rightarrow> True
          | Some u \<Rightarrow> role u \<noteq> ''admin'' \<and> role u \<noteq> ''technician'')
      then (st, [Toast_error ''You do not have permission to update status''])
      else
        let put = Request (PUT (''/reports/'' @ rid @ ''/status'')
                     [(''status'', newStatus st), (''comment'', statusComment st)] (Bearer token))
        in if put_ok
           then
             let (st', es) = fetchReport_settled refetched (st\<lparr>statusComment := []\<rparr>)
             in (st', put # fetchReport_request rid # Toast_success ''Status updated'' # es)
           else (st, [put, Toast_error ''Failed to update status'']))"

text \<open>
  What is rendered. The page proper is returned only once loading is over and a report
  is there; the comment form stands under \<^verbatim>\<open>{user && (...)}\<close>, the status card under
  \<^verbatim>\<open>{user && (user.role === 'admin' || user.role === 'technician') && (...)}\<close>.
\<close>

definition commentFormRendered :: "user option \<Rightarrow> detail_state \<Rightarrow> bool" where
  "commentFormRendered usr st = (\<not> loadingReport st \<and> report st \<noteq> None \<and> usr \<noteq> None)"

definition statusCardRendered :: "user option \<Rightarrow> detail_state \<Rightarrow> bool" where
  "statusCardRendered usr st = (\<not> loadingReport st \<and> report st \<noteq> None \<and> is_staff usr)"

text \<open>\<^verbatim>\<open>disabled={!newComment.trim()}\<close>\<close>

definition addCommentDisabled :: "detail_state \<Rightarrow> bool" where
  "addCommentDisabled st = (\<not> truthy (trim (newComment st)))"

text \<open>\<^verbatim>\<open>disabled={newStatus === report.status && !statusComment}\<close>, for the report shown.\<close>

definition updateStatusDisabled :: "report \<Rightarrow> detail_state \<Rightarrow> bool" where
  "updateStatusDisabled r st = (newStatus st = status r \<and> \<not> truthy (statusComment st))"

text \<open>
  The two buttons as a user can operate them: a button that is not rendered or is
  disabled does nothing; the comment button submits its form, which calls
  \<open>handleAddComment\<close>, and the status button calls \<open>handleStatusUpdate\<close>.
\<close>

definition clickAddComment ::
  "user option \<Rightarrow> string option \<Rightarrow> string \<Rightarrow> bool \<Rightarrow> comment list option \<Rightarrow>
   detail_state \<Rightarrow> detail_state \<times> effect list" where
  "clickAddComment usr token rid post_ok refetched st =
     (if commentFormRendered usr st \<and> \<not> addCommentDisabled st
      then handleAddComment usr token rid post_ok refetched st
      else (st, []))"

definition clickUpdateStatus ::
  "user option \<Rightarrow> string option \<Rightarrow> string \<Rightarrow> bool \<Rightarrow> report option \<Rightarrow>
   detail_state \<Rightarrow> detail_state \<times> effect list" where
  "clickUpdateStatus usr token rid put_ok refetched st =
     (case report st of
        None \<Rightarrow> (st, [])
      | Some r \<Rightarrow>
          if statusCardRendered usr st \<and> \<not> updateStatusDisabled r st
          then handleStatusUpdate usr token rid put_ok refetched st
          else (st, []))"

section \<open>AdminDashboard.js: the page\<close>

text \<open>
  The component's state (the analytics, which only feed the charts, are left out). It
  starts with no reports, no users, loading, and empty filters.
\<close>

record admin_state =
  reports :: "report list"
  users :: "user list"
  loading :: bool
  statusFilter :: string
  categoryFilter :: string
  searchTerm :: string

definition admin_initial :: admin_state where
  "admin_initial = \<lparr>reports = [], users = [], loading = True,
     statusFilter = [], categoryFilter = [], searchTerm = []\<rparr>"

text \<open>
  \<open>fetchData\<close>: the three reads succeed together (\<open>Promise.all\<close>) or the catch branch
  runs; \<open>setLoading(false)\<close> is in \<open>finally\<close>.
\<close>

definition fetchData ::
  "string option \<Rightarrow> (report list \<times> user list) option \<Rightarrow> admin_state \<Rightarrow>
   admin_state \<times> effect list" where
  "fetchData token response st =
     (let reqs = [Request (GET ''/reports'' No_auth),
                  Request (GET ''/analytics'' (Bearer token)),
                  Request (GET ''/users'' (Bearer token))]
      in case response of
           Some (rs, us) \<Rightarrow> (st\<lparr>reports := rs, users := us, loading := False\<rparr>, reqs)
         | None \<Rightarrow> (st\<lparr>loading := False\<rparr>, reqs @ [Toast_error ''Failed to fetch data'']))"

text \<open>
  The effect run on mount and whenever the user changes:
  \<^verbatim>\<open>if (user?.role !== 'admin') { toast.error('Access denied'); navigate('/dashboard'); return; }
  fetchData();\<close>
\<close>

definition adminEffect ::
  "user option \<Rightarrow> string option \<Rightarrow> (report list \<times> user list) option \<Rightarrow> admin_state \<Rightarrow>
   admin_state \<times> effect list" where
  "adminEffect usr token response st =
     (if (case usr of None \<Rightarrow> True | Some u \<Rightarrow> role u \<noteq> ''admin'')
      then (st, [Toast_error ''Access denied'', Navigate ''/dashboard''])
      else fetchData token response st)"

text \<open>\<^verbatim>\<open>const technicians = users.filter((u) => u.role === 'technician');\<close>\<close>

definition technicians :: "user list \<Rightarrow> user list" where
  "technicians us = filter (\<lambda>u. role u = ''technician'') us"

text \<open>
  The assignments the table offers: while loading the page is a spinner; afterwards
  every row of the filtered list whose report has no (non-empty) \<open>assigned_to_name\<close>
  shows a select with one item per technician, and choosing an item calls
  \<open>handleAssign(report.id, tech.id)\<close>.
\<close>

definition assignOptions :: "admin_state \<Rightarrow> (string \<times> user) list" where
  "assignOptions st =
     (if loading st then []
      else concat (map
        (\<lambda>r. if (case assigned_to_name r of None \<Rightarrow> False | Some n \<Rightarrow> truthy n) then []
             else map (\<lambda>tech. (report_id r, tech)) (technicians (users st)))
        (adminFilteredReports (reports st) (searchTerm st) (statusFilter st)
           (categoryFilter st))))"

text \<open>
  \<^verbatim>\<open>try { await axios.put(`${API_URL}/reports/${reportId}/assign`,
      { assigned_to_id: technicianId }, ...);
    toast.success('Report assigned successfully'); fetchData(); }
  catch (error) { toast.error('Failed to assign report'); }\<close>
\<close>

definition handleAssign ::
  "string option \<Rightarrow> string \<Rightarrow> string \<Rightarrow> bool \<Rightarrow> (report list \<times> user list) option \<Rightarrow>
   admin_state \<Rightarrow> admin_state \<times> effect list" where
  "handleAssign token reportId technicianId put_ok refetched st =
     (let put = Request (PUT (''/reports/'' @ reportId @ ''/assign'')
                   [(''assigned_to_id'', technicianId)] (Bearer token))
      in if put_ok
         then
           let (st', es) = fetchData token refetched st
           in (st', put # Toast_success ''Report assigned successfully'' # es)
         else (st, [put, Toast_error ''Failed to assign report'']))"

section \<open>The Report Lifecycle Manager\<close>

text \<open>
  The pages only call the manager over HTTP; its code is not among the sources. The
  definitions of this section follow the specification's data model (section 3) and
  operations (section 4.1).
\<close>

text \<open>Modelled from the spec: the error taxonomy of section 7 (the server code is missing).\<close>

datatype mgr_error = Unauthorized | Forbidden | NotFound | InvalidArgument

text \<open>Modelled from the spec: the statuses \<open>{registered, in_progress, resolved, closed}\<close>.\<close>

definition status_enum :: "string list" where
  "status_enum = [''registered'', ''in_progress'', ''resolved'', ''closed'']"

text \<open>Modelled from the spec: the categories \<open>{water, road, electricity, garbage, streetlight, other}\<close>.\<close>

definition category_enum :: "string list" where
  "category_enum = [''water'', ''road'', ''electricity'', ''garbage'', ''streetlight'', ''other'']"

text \<open>Modelled from the spec: the priorities \<open>{low, medium, high}\<close>.\<close>

definition priority_enum :: "string list" where
  "priority_enum = [''low'', ''medium'', ''high'']"

text \<open>
  Modelled from the spec: a timeline entry \<open>{status, optional comment, actor identity,
  timestamp}\<close>; the actor is recorded by id, or as \<open>anonymous\<close>.
\<close>

record timeline_entry =
  entry_status :: string
  entry_comment :: "string option"
  entry_actor :: string
  entry_timestamp :: nat

text \<open>Modelled from the spec: the location \<open>{latitude, longitude, address string}\<close>.\<close>

record geo_location =
  latitude :: rat
  longitude :: rat
  location_address :: "string option"

text \<open>Modelled from the spec: the Report record of the data model.\<close>

record stored_report =
  rep_id :: string
  rep_title :: string
  rep_description :: string
  rep_category :: string
  rep_priority :: string
  rep_location :: geo_location
  rep_images :: "string list"
  rep_status :: string
  rep_created_by :: "string option"
  rep_assigned_to :: "string option"
  rep_timeline :: "timeline_entry list"
  rep_created_at :: nat

text \<open>Modelled from the spec: the Comment record of the data model.\<close>

record stored_comment =
  cmt_id :: string
  cmt_report_id :: string
  cmt_user :: string
  cmt_text :: string
  cmt_created_at :: nat

text \<open>
  Modelled from the spec: what the Report Store holds, the reports by id and the
  comments in the order they were appended.
\<close>

record store =
  store_reports :: "string \<rightharpoonup> stored_report"
  store_comments :: "stored_comment list"

text \<open>
  Modelled from the spec: CreateReport. The title must be non-empty, the coordinates
  present and the images at most five (else \<open>InvalidArgument\<close>); an invalid category
  becomes \<open>other\<close> and an invalid priority \<open>medium\<close>. The new report has status
  \<open>registered\<close> and a timeline of one entry, by the actor or by \<open>anonymous\<close>. The id
  is the one the store assigns and the time is the time of the call.
\<close>

definition CreateReport ::
  "store \<Rightarrow> string \<Rightarrow> string \<Rightarrow> string \<Rightarrow> string \<Rightarrow> string \<Rightarrow> rat option \<Rightarrow> rat option \<Rightarrow>
   string option \<Rightarrow> string list \<Rightarrow> user option \<Rightarrow> nat \<Rightarrow> mgr_error + store" where
  "CreateReport st new_id ttl descr cat prio lat lng addr imgs actor now =
     (if ttl = [] then Inl InvalidArgument
      else if length imgs > 5 then Inl InvalidArgument
      else case (lat, lng) of
        (Some la, Some lo) \<Rightarrow>
          let r = \<lparr>rep_id = new_id, rep_title = ttl, rep_description = descr,
                   rep_category = (if cat \<in> set category_enum then cat else ''other''),
                   rep_priority = (if prio \<in> set priority_enum then prio else ''medium''),
                   rep_location = \<lparr>latitude = la, longitude = lo, location_address = addr\<rparr>,
                   rep_images = imgs,
                   rep_status = ''registered'',
                   rep_created_by = map_option user_id actor,
                   rep_assigned_to = None,
                   rep_timeline =
                     [\<lparr>entry_status = ''registered'', entry_comment = None,
                       entry_actor = (case actor of None \<Rightarrow> ''anonymous'' | Some u \<Rightarrow> user_id u),
                       entry_timestamp = now\<rparr>],
                   rep_created_at = now\<rparr>
          in Inr (st\<lparr>store_reports := (store_reports st)(new_id \<mapsto> r)\<rparr>)
      | _ \<Rightarrow> Inl InvalidArgument)"

text \<open>
  Modelled from the spec: AddComment. \<open>Unauthorized\<close> if the actor is absent,
  \<open>NotFound\<close> if the report id does not resolve, \<open>InvalidArgument\<close> for an empty text;
  otherwise the comment is appended and no report is touched.
\<close>

definition AddComment ::
  "store \<Rightarrow> string \<Rightarrow> string \<Rightarrow> user option \<Rightarrow> string \<Rightarrow> nat \<Rightarrow> mgr_error + store" where
  "AddComment st new_id reportId actor txt now =
     (case actor of
        None \<Rightarrow> Inl Unauthorized
      | Some u \<Rightarrow>
          (case store_reports st reportId of
             None \<Rightarrow> Inl NotFound
           | Some r \<Rightarrow>
               if txt = [] then Inl InvalidArgument
               else Inr (st\<lparr>store_comments := store_comments st @
                      [\<lparr>cmt_id = new_id, cmt_report_id = reportId, cmt_user = user_id u,
                        cmt_text = txt, cmt_created_at = now\<rparr>]\<rparr>)))"

text \<open>
  Modelled from the spec: UpdateStatus. \<open>Forbidden\<close> if the actor's role is neither
  admin nor technician, \<open>NotFound\<close> if the report is missing, \<open>InvalidArgument\<close> if
  the new status is not in the enumeration; otherwise the entry \<open>{status, comment or
  null, actor, now}\<close> is appended to the timeline and the report's status becomes the
  new status. There is no other guard: any status may follow any status, the current
  one included.
\<close>

definition UpdateStatus ::
  "store \<Rightarrow> string \<Rightarrow> user \<Rightarrow> string \<Rightarrow> string option \<Rightarrow> nat \<Rightarrow> mgr_error + store" where
  "UpdateStatus st reportId actor new_status cmt now =
     (if role actor \<noteq> ''admin'' \<and> role actor \<noteq> ''technician'' then Inl Forbidden
      else case store_reports st reportId of
        None \<Rightarrow> Inl NotFound
      | Some r \<Rightarrow>
          if new_status \<notin> set status_enum then Inl InvalidArgument
          else
            let e = \<lparr>entry_status = new_status,
                     entry_comment = (case cmt of None \<Rightarrow> None
                                      | Some c \<Rightarrow> if c = [] then None else Some c),
                     entry_actor = user_id actor, entry_timestamp = now\<rparr>
            in Inr (st\<lparr>store_reports := (store_reports st)(reportId \<mapsto>
                 r\<lparr>rep_timeline := rep_timeline r @ [e], rep_status := new_status\<rparr>)\<rparr>))"

text \<open>
  Modelled from the spec: AssignTechnician, with the identity resolver as a parameter.
  \<open>Forbidden\<close> if the actor is not an admin, \<open>InvalidArgument\<close> if the target id does
  not resolve to a technician, \<open>NotFound\<close> if the report is missing; otherwise
  \<open>assigned_to\<close> is set and no timeline entry is appended.
\<close>

definition AssignTechnician ::
  "(string \<rightharpoonup> user) \<Rightarrow> store \<Rightarrow> string \<Rightarrow> user \<Rightarrow> string \<Rightarrow> mgr_error + store" where
  "AssignTechnician resolve st reportId actor technicianId =
     (if role actor \<noteq> ''admin'' then Inl Forbidden
      else if (case resolve technicianId of None \<Rightarrow> True | Some t \<Rightarrow> role t \<noteq> ''technician'')
      then Inl InvalidArgument
      else case store_reports st reportId of
        None \<Rightarrow> Inl NotFound
      | Some r \<Rightarrow>
          Inr (st\<lparr>store_reports := (store_reports st)(reportId \<mapsto>
                 r\<lparr>rep_assigned_to := Some technicianId\<rparr>)\<rparr>))"

text \<open>
  Modelled from the spec: the three operations that are invoked on existing reports, as
  calls with their arguments.
\<close>

datatype call =
  Add_comment string string "user option" string nat
| Update_status string user string "string option" nat
| Assign_technician string user string

text \<open>Modelled from the spec: performing a call is invoking its operation.\<close>

fun perform :: "(string \<rightharpoonup> user) \<Rightarrow> store \<Rightarrow> call \<Rightarrow> mgr_error + store" where
  "perform resolve st (Add_comment new_id reportId actor txt now) =
     AddComment st new_id reportId actor txt now"
| "perform resolve st (Update_status reportId actor new_status cmt now) =
     UpdateStatus st reportId actor new_status cmt now"
| "perform resolve st (Assign_technician reportId actor technicianId) =
     AssignTechnician resolve st reportId actor technicianId"

text \<open>Modelled from the spec: a call that fails changes nothing in the store.\<close>

definition apply_call :: "(string \<rightharpoonup> user) \<Rightarrow> store \<Rightarrow> call \<Rightarrow> store" where
  "apply_call resolve st c = (case perform resolve st c of Inl e \<Rightarrow> st | Inr st' \<Rightarrow> st')"

text \<open>Modelled from the spec: a sequence of calls, one after the other.\<close>

fun run_calls :: "(string \<rightharpoonup> user) \<Rightarrow> store \<Rightarrow> call list \<Rightarrow> store" where
  "run_calls resolve st [] = st"
| "run_calls resolve st (c # cs) = run_calls resolve (apply_call resolve st c) cs"

text \<open>
  Modelled from the spec: a call is accepted when it does not fail; the number of
  accepted UpdateStatus calls of a run that are made on a given report.
\<close>

fun accepted :: "mgr_error + store \<Rightarrow> bool" where
  "accepted (Inr _) = True"
| "accepted (Inl _) = False"

fun is_update_of :: "string \<Rightarrow> call \<Rightarrow> bool" where
  "is_update_of rid (Update_status reportId actor new_status cmt now) = (reportId = rid)"
| "is_update_of rid _ = False"

fun accepted_updates :: "(string \<rightharpoonup> user) \<Rightarrow> store \<Rightarrow> string \<Rightarrow> call list \<Rightarrow> nat" where
  "accepted_updates resolve st rid [] = 0"
| "accepted_updates resolve st rid (c # cs) =
     (if is_update_of rid c \<and> accepted (perform resolve st c) then 1 else 0) +
     accepted_updates resolve (apply_call resolve st c) rid cs"

section \<open>The list filter as the specification words it\<close>








text \<open>
  The white space of a comment text: tab, line feed, vertical tab, form feed, carriage
  return, space, no-break space. A text is white space only when it has no other
  character; the empty text is.
\<close>

definition white_space_characters :: string where
  "white_space_characters =
     [CHR 0x09, CHR 0x0A, CHR 0x0B, CHR 0x0C, CHR 0x0D, CHR 0x20, CHR 0xA0]"

definition whitespace_only :: "string \<Rightarrow> bool" where
  "whitespace_only s = (set s \<subseteq> set white_space_characters)"

text \<open>
  A number rendered with \<open>f\<close> decimal places: an optional minus sign, at least one
  digit, the point, and exactly \<open>f\<close> digits.
\<close>

definition is_digit :: "char \<Rightarrow> bool" where
  "is_digit c = (c \<in> set ''0123456789'')"

definition has_decimal_places :: "nat \<Rightarrow> string \<Rightarrow> bool" where
  "has_decimal_places f str =
     (\<exists>sign whole frac. str = sign @ whole @ ''.'' @ frac \<and>
        (sign = [] \<or> sign = ''-'') \<and>
        whole \<noteq> [] \<and> list_all is_digit whole \<and>
        length frac = f \<and> list_all is_digit frac)"

text \<open>
  An id names a technician when the identity resolver maps it to an identity whose role
  is \<open>technician\<close>; a visitor is not an admin when nobody is signed in or the role is
  another one.
\<close>

definition is_technician_id :: "(string \<rightharpoonup> user) \<Rightarrow> string \<Rightarrow> bool" where
  "is_technician_id resolve tid = (\<exists>t. resolve tid = Some t \<and> role t = ''technician'')"

definition not_admin :: "user option \<Rightarrow> bool" where
  "not_admin usr = (case usr of None \<Rightarrow> True | Some u \<Rightarrow> role u \<noteq> ''admin'')"

section \<open>Example data\<close>

definition alice :: user where
  "alice = \<lparr>user_id = ''u1'', name = ''Alice'', role = ''user''\<rparr>"

definition pothole :: report where
  "pothole = \<lparr>report_id = ''r1'', title = ''Pothole on Main St'',
     description = Some ''Deep hole near the SCHOOL'', category = ''road'',
     status = ''resolved'', priority = ''high'', created_by_id = Some ''u1'',
     assigned_to_name = None\<rparr>"

definition leak :: report where
  "leak = \<lparr>report_id = ''r2'', title = ''Water leak'',
     description = None, category = ''water'',
     status = ''resolved'', priority = ''medium'', created_by_id = None,
     assigned_to_name = None\<rparr>"

definition lamp :: report where
  "lamp = \<lparr>report_id = ''r3'', title = ''Broken lamp'',
     description = Some ''Dark road at night'', category = ''road'',
     status = ''registered'', priority = ''low'', created_by_id = Some ''u2'',
     assigned_to_name = Some ''Tara''\<rparr>"

definition ann :: user where
  "ann = \<lparr>user_id = ''a1'', name = ''Ann'', role = ''admin''\<rparr>"

definition tom :: user where
  "tom = \<lparr>user_id = ''t1'', name = ''Tom'', role = ''technician''\<rparr>"

definition resolver :: "string \<rightharpoonup> user" where
  "resolver = [''u1'' \<mapsto> alice, ''a1'' \<mapsto> ann, ''t1'' \<mapsto> tom]"

definition empty_store :: store where
  "empty_store = \<lparr>store_reports = Map.empty, store_comments = []\<rparr>"

definition example_calls :: "call list" where
  "example_calls =
     [Update_status ''r1'' ann ''in_progress'' None 1,
      Update_status ''r1'' alice ''closed'' None 2,
      Assign_technician ''r1'' ann ''t1'',
      Update_status ''r1'' tom ''resolved'' (Some ''Fixed'') 3]"

definition viewing :: detail_state where
  "viewing = \<lparr>report = Some pothole, comments = [],
     newComment = [CHR 0x20, CHR 0xA0, CHR 0x09],
     newStatus = ''resolved'', statusComment = [], loadingReport = False\<rparr>"

definition admin_loaded :: admin_state where
  "admin_loaded = \<lparr>reports = [pothole, leak, lamp], users = [alice, ann, tom],
     loading = False, statusFilter = [], categoryFilter = [], searchTerm = []\<rparr>"

definition stored_pothole :: stored_report where
  "stored_pothole = \<lparr>rep_id = ''r1'', rep_title = ''Pothole on Main St'',
     rep_description = ''Deep hole'', rep_category = ''road'', rep_priority = ''high'',
     rep_location = \<lparr>latitude = 40, longitude = - 75, location_address = Some ''123 Main St''\<rparr>,
     rep_images = [], rep_status = ''in_progress'', rep_created_by = Some ''u1'',
     rep_assigned_to = None,
     rep_timeline =
       [\<lparr>entry_status = ''registered'', entry_comment = None, entry_actor = ''u1'',
         entry_timestamp = 0\<rparr>,
        \<lparr>entry_status = ''in_progress'', entry_comment = None, entry_actor = ''a1'',
         entry_timestamp = 1\<rparr>],
     rep_created_at = 0\<rparr>"

definition one_report_store :: store where
  "one_report_store = \<lparr>store_reports = [''r1'' \<mapsto> stored_pothole], store_comments = []\<rparr>"

section \<open>Facts about the string built-ins\<close>

lemma includes_empty: "includes_str s []"
  by (simp add: includes_str_def)

lemma toLowerCase_Nil: "toLowerCase [] = []"
  by (simp add: toLowerCase_def)

lemma matchesSearch_empty: "matchesSearch [] r"
  by (simp add: matchesSearch_def toLowerCase_Nil includes_empty)


lemma isWhiteSpace_table: "\<forall>c. isWhiteSpace c = (c \<in> set white_space_characters)"
  by code_simp












declare digits.simps [simp del]

lemma floor_rat_numeral_div: "\<lfloor>numeral a / numeral b :: rat\<rfloor> = numeral a div numeral b"
  by (metis floor_divide_of_int_eq of_int_numeral)

lemma is_digit_digitChar: "d < 10 \<Longrightarrow> is_digit (digitChar d)"
  unfolding is_digit_def digitChar_def by (rule nth_mem) simp

lemma digits_not_Nil: "digits n \<noteq> []"
  by (subst digits.simps) simp

lemma digits_all_digits: "list_all is_digit (digits n)"
proof (induction n rule: digits.induct)
  case (1 n)
  show ?case
  proof (cases "n < 10")
    case True
    then show ?thesis
      by (subst digits.simps) (simp add: is_digit_digitChar)
  next
    case False
    with 1 have "list_all is_digit (digits (n div 10))"
      by simp
    moreover have "is_digit (digitChar (n mod 10))"
      by (simp add: is_digit_digitChar)
    ultimately show ?thesis
      using False by (subst digits.simps) simp
  qed
qed

lemma list_all_take: "list_all P xs \<Longrightarrow> list_all P (take n xs)"
  by (metis append_take_drop_id list_all_append)

lemma list_all_drop: "list_all P xs \<Longrightarrow> list_all P (drop n xs)"
  by (metis append_take_drop_id list_all_append)

lemma point_split_form:
  assumes "list_all is_digit m" and "f < length m" and "sign = [] \<or> sign = ''-''"
  shows "has_decimal_places f (sign @ take (length m - f) m @ ''.'' @ drop (length m - f) m)"
  unfolding has_decimal_places_def
proof (intro exI conjI)
  show "sign @ take (length m - f) m @ ''.'' @ drop (length m - f) m =
      sign @ take (length m - f) m @ ''.'' @ drop (length m - f) m"
    by (rule refl)
  show "sign = [] \<or> sign = ''-''"
    by (rule assms(3))
  show "take (length m - f) m \<noteq> []"
    using assms(2) by (cases m) auto
  show "list_all is_digit (take (length m - f) m)"
    using assms(1) by (rule list_all_take)
  show "length (drop (length m - f) m) = f"
    using assms(2) by simp
  show "list_all is_digit (drop (length m - f) m)"
    using assms(1) by (rule list_all_drop)
qed

lemma toFixed_form:
  assumes "\<bar>x\<bar> < 10 ^ 21" and "f \<noteq> 0"
  shows "has_decimal_places f (toFixed toStr x f)"
proof -
  define n where "n = nat \<lfloor>\<bar>x\<bar> * 10 ^ f + 1 / 2\<rfloor>"
  define m2 where "m2 = (if length (digits n) \<le> f
      then replicate (f + 1 - length (digits n)) (CHR ''0'') @ digits n else digits n)"
  define sign where "sign = (if x < 0 then ''-'' else [])"
  have zero: "is_digit (CHR ''0'')"
    by (simp add: is_digit_def)
  have "list_all is_digit (replicate (f + 1 - length (digits n)) (CHR ''0''))"
    using zero by (simp add: list_all_iff)
  then have all: "list_all is_digit m2"
    by (simp add: m2_def digits_all_digits)
  have len: "f < length m2"
    by (simp add: m2_def)
  have sg: "sign = [] \<or> sign = ''-''"
    by (simp add: sign_def)
  have "toFixed toStr x f = sign @ take (length m2 - f) m2 @ ''.'' @ drop (length m2 - f) m2"
    using assms by (simp add: toFixed_def Let_def n_def m2_def sign_def)
  with point_split_form [OF all len sg] show ?thesis
    by simp
qed

lemma removeImage_length: "length (removeImage images index) \<le> length images"
proof -
  have "length (removeImage images index) \<le> length (enumerate 0 images)"
    unfolding removeImage_def length_map by (rule length_filter_le)
  then show ?thesis
    by simp
qed

lemma image_step_at_most_five: "length images \<le> 5 \<Longrightarrow> length (image_step images ev) \<le> 5"
proof (cases ev)
  case (Select_files files)
  assume "length images \<le> 5"
  with Select_files show ?thesis
    by (simp add: handleImageSelect_def)
next
  case (Remove_image index)
  assume "length images \<le> 5"
  with Remove_image removeImage_length [of images index] show ?thesis
    by simp
qed

lemma foldl_image_step_at_most_five:
  "length images \<le> 5 \<Longrightarrow> length (foldl image_step images events) \<le> 5"
  by (induction events arbitrary: images) (simp_all add: image_step_at_most_five)

lemma dropWhile_all_iff: "(\<forall>c \<in> set (dropWhile P s). P c) \<longleftrightarrow> (\<forall>c \<in> set s. P c)"
  by (induction s) simp_all

lemma trim_empty_iff: "trim s = [] \<longleftrightarrow> whitespace_only s"
proof -
  have "trim s = [] \<longleftrightarrow> (\<forall>c \<in> set (dropWhile isWhiteSpace s). isWhiteSpace c)"
    unfolding trim_def rev_is_Nil_conv dropWhile_eq_Nil_conv set_rev by (rule refl)
  also have "\<dots> \<longleftrightarrow> (\<forall>c \<in> set s. isWhiteSpace c)"
    by (rule dropWhile_all_iff)
  also have "\<dots> \<longleftrightarrow> whitespace_only s"
    using isWhiteSpace_table by (auto simp: whitespace_only_def)
  finally show ?thesis .
qed

lemma apply_call_keeps_report:
  assumes "store_reports st rid = Some r"
    and "rep_timeline r \<noteq> []"
    and "rep_status r = entry_status (last (rep_timeline r))"
  shows "\<exists>r'. store_reports (apply_call resolve st c) rid = Some r' \<and>
      rep_timeline r' \<noteq> [] \<and>
      rep_status r' = entry_status (last (rep_timeline r')) \<and>
      length (rep_timeline r') =
        length (rep_timeline r) +
        (if is_update_of rid c \<and> accepted (perform resolve st c) then 1 else 0)"
proof (cases c)
  case (Add_comment new_id reportId actor body now)
  with assms show ?thesis
    by (auto simp: apply_call_def AddComment_def split: option.splits)
next
  case (Update_status reportId actor new_status cmt now)
  with assms show ?thesis
    by (auto simp: apply_call_def UpdateStatus_def Let_def split: option.splits)
next
  case (Assign_technician reportId actor technicianId)
  with assms show ?thesis
    by (auto simp: apply_call_def AssignTechnician_def split: option.splits)
qed

lemma run_calls_keeps_report:
  assumes "store_reports st rid = Some r"
    and "rep_timeline r \<noteq> []"
    and "rep_status r = entry_status (last (rep_timeline r))"
  shows "\<exists>r'. store_reports (run_calls resolve st cs) rid = Some r' \<and>
      rep_timeline r' \<noteq> [] \<and>
      rep_status r' = entry_status (last (rep_timeline r')) \<and>
      length (rep_timeline r') = length (rep_timeline r) + accepted_updates resolve st rid cs"
  using assms
proof (induction cs arbitrary: st r)
  case Nil
  then show ?case by simp
next
  case (Cons c cs)
  from apply_call_keeps_report [OF Cons.prems, of resolve c]
  obtain r1 where r1: "store_reports (apply_call resolve st c) rid = Some r1"
      "rep_timeline r1 \<noteq> []" "rep_status r1 = entry_status (last (rep_timeline r1))"
      "length (rep_timeline r1) =
        length (rep_timeline r) +
        (if is_update_of rid c \<and> accepted (perform resolve st c) then 1 else 0)"
    by blast
  from Cons.IH [OF r1(1) r1(2) r1(3)]
  obtain r' where "store_reports (run_calls resolve (apply_call resolve st c) cs) rid = Some r'"
      "rep_timeline r' \<noteq> []" "rep_status r' = entry_status (last (rep_timeline r'))"
      "length (rep_timeline r') =
        length (rep_timeline r1) + accepted_updates resolve (apply_call resolve st c) rid cs"
    by blast
  with r1(4) show ?case
    by simp
qed

lemma CreateReport_seeds:
  assumes "CreateReport st new_id ttl descr cat prio lat lng addr imgs actor now = Inr st1"
  shows "\<exists>r. store_reports st1 new_id = Some r \<and> rep_status r = ''registered'' \<and>
      length (rep_timeline r) = 1 \<and> entry_status (last (rep_timeline r)) = ''registered''"
  using assms
  by (auto simp: CreateReport_def Let_def split: if_splits option.splits prod.splits)


lemma not_staff_iff:
  "\<not> is_staff usr \<longleftrightarrow>
     (case usr of None \<Rightarrow> True | Some u \<Rightarrow> role u \<noteq> ''admin'' \<and> role u \<noteq> ''technician'')"
  by (simp add: is_staff_def split: option.splits)

lemma handleStatusUpdate_not_staff:
  "\<not> is_staff usr \<Longrightarrow>
   handleStatusUpdate usr token rid put_ok refetched dst =
     (dst, [Toast_error ''You do not have permission to update status''])"
  by (simp add: handleStatusUpdate_def not_staff_iff)

lemma assignOptions_technicians:
  "(rid, tech) \<in> set (assignOptions ast) \<Longrightarrow> role tech = ''technician'' \<and> tech \<in> set (users ast)"
  by (auto simp: assignOptions_def technicians_def split: if_splits)

section \<open>Filtering the report list\<close>



text \<open>
  Claim C10. With an empty search term both filters keep every report (the admin
  table's when no status or category is selected), and a report without a description
  is matched through its title alone: the predicate is a plain boolean there.
\<close>

theorem empty_search_keeps_all:
  "filteredReports rs [] = rs
   \<and> adminFilteredReports rs [] [] [] = rs
   \<and> adminFilteredReports rs [] ''all'' ''all'' = rs
   \<and> matchesSearch searchText (r\<lparr>description := None\<rparr>) =
      includes_str (toLowerCase (title r)) (toLowerCase searchText)"
proof -
  have "filteredReports rs [] = rs"
    by (simp add: filteredReports_def matchesSearch_empty)
  moreover have "adminFilteredReports rs [] [] [] = rs"
    by (simp add: adminFilteredReports_def matchesSearch_empty matchesStatus_def
        matchesCategory_def truthy_def)
  moreover have "adminFilteredReports rs [] ''all'' ''all'' = rs"
    by (simp add: adminFilteredReports_def matchesSearch_empty matchesStatus_def
        matchesCategory_def)
  moreover have "matchesSearch searchText (r\<lparr>description := None\<rparr>) =
      includes_str (toLowerCase (title r)) (toLowerCase searchText)"
    by (simp add: matchesSearch_def)
  ultimately show ?thesis
    by simp
qed

text \<open>
  Over the three example reports the empty search keeps all three, and the report
  without a description is found by \<open>WATER\<close> through its title \<open>Water leak\<close>.
\<close>

theorem empty_search_keeps_all_witness:
  "filteredReports [pothole, leak, lamp] [] = [pothole, leak, lamp] \<and>
   adminFilteredReports [pothole, leak, lamp] [] ''all'' ''all'' = [pothole, leak, lamp] \<and>
   description leak = None \<and> matchesSearch ''WATER'' leak"
proof -
  note t = empty_search_keeps_all [of "[pothole, leak, lamp]" "''WATER''" leak]
  have d: "description leak = None" and l: "leak\<lparr>description := None\<rparr> = leak"
    by (simp_all add: leak_def)
  have i: "includes_str (toLowerCase (title leak)) (toLowerCase ''WATER'')"
    by code_simp
  from t l i have "matchesSearch ''WATER'' leak"
    by simp
  with t d show ?thesis
    by blast
qed

text \<open>
  Claim C8. For a signed-in user the list of their reports holds exactly the reports
  of the search-filtered list whose \<open>created_by_id\<close> is the user's id (with an empty
  search term: exactly those of the fetched list), so a report without
  \<open>created_by_id\<close> is in no user's list; with no user the list is empty.
\<close>

theorem my_reports_by_creator:
  "(r \<in> set (myReports (Some u) rs searchText) \<longleftrightarrow>
      r \<in> set (filteredReports rs searchText) \<and> created_by_id r = Some (user_id u))
   \<and> (r \<in> set (myReports (Some u) rs []) \<longleftrightarrow>
      r \<in> set rs \<and> created_by_id r = Some (user_id u))
   \<and> (created_by_id r = None \<longrightarrow> r \<notin> set (myReports usr rs searchText))
   \<and> myReports None rs searchText = []"
proof -
  have "created_by_id r = None \<longrightarrow> r \<notin> set (myReports usr rs searchText)"
    by (cases usr) (auto simp: myReports_def)
  moreover have "filteredReports rs [] = rs"
    by (simp add: filteredReports_def matchesSearch_empty)
  ultimately show ?thesis
    by (simp add: myReports_def)
qed

text \<open>
  Alice's list over a fetched list of her own report, an anonymous one and another
  user's: only her own.
\<close>

theorem my_reports_by_creator_witness:
  "created_by_id leak = None \<and> leak \<in> set [pothole, leak, lamp] \<and>
   leak \<notin> set (myReports (Some alice) [pothole, leak, lamp] []) \<and>
   pothole \<in> set (myReports (Some alice) [pothole, leak, lamp] [])"
proof -
  have h: "created_by_id leak = None"
    by (simp add: leak_def)
  have c: "created_by_id pothole = Some (user_id alice)"
    by (simp add: pothole_def alice_def)
  from my_reports_by_creator [of leak alice "[pothole, leak, lamp]" "[]" "Some alice"] h
  have "leak \<notin> set (myReports (Some alice) [pothole, leak, lamp] [])"
    by blast
  moreover from my_reports_by_creator [of pothole alice "[pothole, leak, lamp]" "[]" "Some alice"] c
  have "pothole \<in> set (myReports (Some alice) [pothole, leak, lamp] [])"
    by auto
  ultimately show ?thesis
    using h by simp
qed

section \<open>The photo list of the create form\<close>

text \<open>
  Claim C7. The photo list never holds more than five entries: choosing files that
  would bring the total above five leaves the list as it is (and shows the error
  toast), any other choice appends all chosen files in their order, removing a photo
  only shortens the list, and so after any sequence of choices and removals, starting
  from the empty list, the list has at most five entries.
\<close>

theorem images_at_most_five:
  "(length images + length files > 5 \<longrightarrow>
      handleImageSelect images files = (images, [Toast_error ''Maximum 5 images allowed'']))
   \<and> (length images + length files \<le> 5 \<longrightarrow>
      handleImageSelect images files = (images @ files, []))
   \<and> length (removeImage images index) \<le> length images
   \<and> length (images_after events) \<le> 5"
proof -
  have "length (images_after events) \<le> 5"
    unfolding images_after_def by (rule foldl_image_step_at_most_five) simp
  then show ?thesis
    by (simp add: handleImageSelect_def removeImage_length)
qed

text \<open>
  Three photos are chosen; choosing three more is refused, choosing two more is
  accepted.
\<close>

theorem images_at_most_five_witness:
  "length ''abc'' + length ''def'' > 5 \<and>
   handleImageSelect ''abc'' ''def'' = (''abc'', [Toast_error ''Maximum 5 images allowed'']) \<and>
   length ''abc'' + length ''de'' \<le> 5 \<and>
   handleImageSelect ''abc'' ''de'' = (''abcde'', [])"
proof -
  have h1: "length ''abc'' + length ''def'' > 5" and h2: "length ''abc'' + length ''de'' \<le> 5"
    by simp_all
  from h1 images_at_most_five [of "''abc''" "''def''"]
  have r1: "handleImageSelect ''abc'' ''def'' = (''abc'', [Toast_error ''Maximum 5 images allowed''])"
    by blast
  from h2 images_at_most_five [of "''abc''" "''de''"]
  have r2: "handleImageSelect ''abc'' ''de'' = (''abc'' @ ''de'', [])"
    by blast
  from h1 h2 r1 r2 show ?thesis
    by simp
qed

section \<open>Reverse geocoding\<close>

text \<open>
  Claim C9. Whatever the geocoding service answers, \<open>reverseGeocode\<close> hands an address
  to \<open>setAddress\<close> and the map click around it still records the position. When the
  request fails the address is the latitude and the longitude (of magnitude below
  \<open>10^21\<close>), each rendered by \<open>toFixed(6)\<close> with exactly six decimal places, joined by
  a comma and a space.
\<close>

theorem geocode_failure_falls_back:
  "fst (reverseGeocode toStr lat lng Geocode_failed) =
      Some (toFixed toStr lat 6 @ '', '' @ toFixed toStr lng 6)
   \<and> (\<bar>lat\<bar> < 10 ^ 21 \<longrightarrow> has_decimal_places 6 (toFixed toStr lat 6))
   \<and> (\<bar>lng\<bar> < 10 ^ 21 \<longrightarrow> has_decimal_places 6 (toFixed toStr lng 6))
   \<and> position (fst (mapClick toStr lat lng response st)) = Some (lat, lng)
   \<and> address (fst (mapClick toStr lat lng Geocode_failed st)) =
      Some (toFixed toStr lat 6 @ '', '' @ toFixed toStr lng 6)"
proof -
  have "fst (reverseGeocode toStr lat lng Geocode_failed) =
      Some (toFixed toStr lat 6 @ '', '' @ toFixed toStr lng 6)"
    by (simp add: reverseGeocode_def)
  moreover have "\<bar>lat\<bar> < 10 ^ 21 \<longrightarrow> has_decimal_places 6 (toFixed toStr lat 6)"
    by (simp add: toFixed_form)
  moreover have "\<bar>lng\<bar> < 10 ^ 21 \<longrightarrow> has_decimal_places 6 (toFixed toStr lng 6)"
    by (simp add: toFixed_form)
  moreover have "position (fst (mapClick toStr lat lng response st)) = Some (lat, lng)"
    by (simp add: mapClick_def split: prod.splits)
  moreover have "address (fst (mapClick toStr lat lng Geocode_failed st)) =
      Some (toFixed toStr lat 6 @ '', '' @ toFixed toStr lng 6)"
    by (simp add: mapClick_def reverseGeocode_def)
  ultimately show ?thesis
    by blast
qed

text \<open>
  A click at latitude 40.7128, longitude -74.006 whose geocoding request fails leaves
  the address \<open>40.712800, -74.006000\<close> (the ordinary number-to-string conversion,
  which \<open>toFixed\<close> does not reach here, is a constant function in this example).
\<close>

theorem geocode_failure_falls_back_witness:
  "\<bar>407128 / 10000 :: rat\<bar> < 10 ^ 21 \<and> \<bar>- 74006 / 1000 :: rat\<bar> < 10 ^ 21 \<and>
   has_decimal_places 6 (toFixed (\<lambda>x. []) (407128 / 10000) 6) \<and>
   has_decimal_places 6 (toFixed (\<lambda>x. []) (- 74006 / 1000) 6) \<and>
   fst (reverseGeocode (\<lambda>x. []) (407128 / 10000) (- 74006 / 1000) Geocode_failed) =
     Some ''40.712800, -74.006000''"
proof -
  have n1: "nat \<lfloor>\<bar>407128 / 10000 :: rat\<bar> * 10 ^ 6 + 1 / 2\<rfloor> = 40712800"
    by (simp add: floor_rat_numeral_div)
  have d1: "digits 40712800 = ''40712800''"
    by (simp add: digits.simps digitChar_def)
  have t1: "toFixed (\<lambda>x. []) (407128 / 10000) 6 = ''40.712800''"
    unfolding toFixed_def Let_def n1 d1 by simp
  have n2: "nat \<lfloor>\<bar>- 74006 / 1000 :: rat\<bar> * 10 ^ 6 + 1 / 2\<rfloor> = 74006000"
    by (simp add: floor_rat_numeral_div)
  have d2: "digits 74006000 = ''74006000''"
    by (simp add: digits.simps digitChar_def)
  have t2: "toFixed (\<lambda>x. []) (- 74006 / 1000) 6 = ''-74.006000''"
    unfolding toFixed_def Let_def n2 d2 by simp
  have h1: "\<bar>407128 / 10000 :: rat\<bar> < 10 ^ 21" and h2: "\<bar>- 74006 / 1000 :: rat\<bar> < 10 ^ 21"
    by simp_all
  note g = geocode_failure_falls_back [of "\<lambda>x. []" "407128 / 10000" "- 74006 / 1000"]
  from g h1 have f1: "has_decimal_places 6 (toFixed (\<lambda>x. []) (407128 / 10000) 6)"
    by blast
  from g h2 have f2: "has_decimal_places 6 (toFixed (\<lambda>x. []) (- 74006 / 1000) 6)"
    by blast
  from g have "fst (reverseGeocode (\<lambda>x. []) (407128 / 10000) (- 74006 / 1000) Geocode_failed) =
      Some (toFixed (\<lambda>x. []) (407128 / 10000) 6 @ '', '' @ toFixed (\<lambda>x. []) (- 74006 / 1000) 6)"
    by blast
  then have "fst (reverseGeocode (\<lambda>x. []) (407128 / 10000) (- 74006 / 1000) Geocode_failed) =
      Some ''40.712800, -74.006000''"
    unfolding t1 t2 by simp
  with h1 h2 f1 f2 show ?thesis
    by blast
qed

section \<open>The status timeline\<close>

text \<open>
  Claim C1. After a report has been created, and after any run of calls on the store
  (status updates by anyone, accepted or refused, comments, assignments), the report
  is still there, its timeline is not empty, its status is the status of the last
  timeline entry, and the timeline has one entry more than the number of accepted
  UpdateStatus calls made on the report.
\<close>

theorem timeline_tracks_status:
  assumes "CreateReport st new_id ttl descr cat prio lat lng addr imgs actor now = Inr st1"
  shows "\<exists>r. store_reports (run_calls resolve st1 calls) new_id = Some r \<and>
      rep_timeline r \<noteq> [] \<and>
      rep_status r = entry_status (last (rep_timeline r)) \<and>
      length (rep_timeline r) = 1 + accepted_updates resolve st1 new_id calls"
proof -
  from CreateReport_seeds [OF assms]
  obtain r0 where r0: "store_reports st1 new_id = Some r0" "rep_status r0 = ''registered''"
      "length (rep_timeline r0) = 1" "entry_status (last (rep_timeline r0)) = ''registered''"
    by blast
  from r0(3) have ne: "rep_timeline r0 \<noteq> []"
    by auto
  from r0(2) r0(4) have inv: "rep_status r0 = entry_status (last (rep_timeline r0))"
    by simp
  from run_calls_keeps_report [OF r0(1) ne inv, of resolve calls] r0(3) show ?thesis
    by simp
qed

text \<open>
  A report is created by Alice; an admin moves it to \<open>in_progress\<close>, Alice's own
  attempt to close it is refused, the admin assigns a technician, and the technician
  resolves it: two accepted updates, three timeline entries.
\<close>

theorem timeline_tracks_status_witness:
  "\<exists>st1. CreateReport empty_store ''r1'' ''Pothole on Main St'' ''Deep hole'' ''road'' ''high''
        (Some 40) (Some (- 75)) (Some ''123 Main St'') [] (Some alice) 0 = Inr st1 \<and>
     accepted_updates resolver st1 ''r1'' example_calls = 2 \<and>
     (\<exists>r. store_reports (run_calls resolver st1 example_calls) ''r1'' = Some r \<and>
        rep_timeline r \<noteq> [] \<and>
        rep_status r = entry_status (last (rep_timeline r)) \<and>
        length (rep_timeline r) = 3)"
proof -
  obtain st1 where c: "CreateReport empty_store ''r1'' ''Pothole on Main St'' ''Deep hole'' ''road''
        ''high'' (Some 40) (Some (- 75)) (Some ''123 Main St'') [] (Some alice) 0 = Inr st1"
    and s1: "store_reports st1 ''r1'' \<noteq> None"
    by (simp add: CreateReport_def)
  have roles: "role ann = ''admin''" "role alice = ''user''" "role tom = ''technician''"
    by (simp_all add: ann_def alice_def tom_def)
  have "accepted_updates resolver st1 ''r1'' example_calls = 2"
    using s1 roles
    by (auto simp: example_calls_def apply_call_def UpdateStatus_def AssignTechnician_def
        resolver_def status_enum_def Let_def split: option.splits)
  with timeline_tracks_status [OF c, of resolver example_calls] c show ?thesis
    by auto
qed


section \<open>Who may change a status\<close>

text \<open>
  Claim C2. For an actor whose role is neither admin nor technician the manager refuses
  UpdateStatus with \<open>Forbidden\<close>, and the refused call leaves the store, so the
  timeline, as it was. In the page, for a visitor who is not staff (nobody signed in,
  or another role) \<open>handleStatusUpdate\<close> only shows the error toast: no request, no
  state change; the status card is rendered exactly for a signed-in admin or
  technician (once the report is loaded), and its button does nothing otherwise.
\<close>

theorem non_staff_cannot_update_status:
  "(role actor \<noteq> ''admin'' \<and> role actor \<noteq> ''technician'' \<longrightarrow>
      UpdateStatus st rid actor new_status cmt now = Inl Forbidden \<and>
      apply_call resolve st (Update_status rid actor new_status cmt now) = st \<and>
      \<not> is_staff (Some actor))
   \<and> (\<not> is_staff usr \<longrightarrow>
      handleStatusUpdate usr token rid put_ok refetched dst =
        (dst, [Toast_error ''You do not have permission to update status'']) \<and>
      requests_of (snd (handleStatusUpdate usr token rid put_ok refetched dst)) = [] \<and>
      \<not> statusCardRendered usr dst \<and>
      clickUpdateStatus usr token rid put_ok refetched dst = (dst, []))
   \<and> (statusCardRendered usr dst \<longleftrightarrow>
      \<not> loadingReport dst \<and> report dst \<noteq> None \<and>
      (\<exists>u. usr = Some u \<and> (role u = ''admin'' \<or> role u = ''technician'')))"
proof -
  have server: "role actor \<noteq> ''admin'' \<and> role actor \<noteq> ''technician'' \<longrightarrow>
      UpdateStatus st rid actor new_status cmt now = Inl Forbidden \<and>
      apply_call resolve st (Update_status rid actor new_status cmt now) = st \<and>
      \<not> is_staff (Some actor)"
    by (simp add: UpdateStatus_def apply_call_def is_staff_def)
  have client: "\<not> is_staff usr \<longrightarrow>
      handleStatusUpdate usr token rid put_ok refetched dst =
        (dst, [Toast_error ''You do not have permission to update status'']) \<and>
      requests_of (snd (handleStatusUpdate usr token rid put_ok refetched dst)) = [] \<and>
      \<not> statusCardRendered usr dst \<and>
      clickUpdateStatus usr token rid put_ok refetched dst = (dst, [])"
    by (simp add: handleStatusUpdate_not_staff requests_of_def statusCardRendered_def
        clickUpdateStatus_def split: option.splits)
  have card: "statusCardRendered usr dst \<longleftrightarrow>
      \<not> loadingReport dst \<and> report dst \<noteq> None \<and>
      (\<exists>u. usr = Some u \<and> (role u = ''admin'' \<or> role u = ''technician''))"
    by (cases usr) (simp_all add: statusCardRendered_def is_staff_def)
  from server client card show ?thesis
    by blast
qed

text \<open>
  Alice has the role \<open>user\<close>: the manager answers \<open>Forbidden\<close>, the handler sends
  nothing, and the button does nothing.
\<close>

theorem non_staff_cannot_update_status_witness:
  "role alice \<noteq> ''admin'' \<and> role alice \<noteq> ''technician'' \<and> \<not> is_staff (Some alice) \<and>
   UpdateStatus empty_store ''r1'' alice ''closed'' None 2 = Inl Forbidden \<and>
   requests_of (snd (handleStatusUpdate (Some alice) (Some ''tok'') ''r1'' True None viewing)) = [] \<and>
   clickUpdateStatus (Some alice) (Some ''tok'') ''r1'' True None viewing = (viewing, [])"
proof -
  have h: "role alice \<noteq> ''admin'' \<and> role alice \<noteq> ''technician''"
    by (simp add: alice_def)
  note t = non_staff_cannot_update_status [of alice empty_store "''r1''" "''closed''" None 2
      resolver "Some alice" "Some ''tok''" True None viewing]
  from t h have s: "UpdateStatus empty_store ''r1'' alice ''closed'' None 2 = Inl Forbidden"
      and n: "\<not> is_staff (Some alice)"
    by blast+
  from t n have "requests_of (snd (handleStatusUpdate (Some alice) (Some ''tok'') ''r1'' True None viewing)) = []"
      and "clickUpdateStatus (Some alice) (Some ''tok'') ''r1'' True None viewing = (viewing, [])"
    by blast+
  with h s n show ?thesis
    by blast
qed



section \<open>Who may comment\<close>

text \<open>
  Claim C4. The manager refuses AddComment without an actor with \<open>Unauthorized\<close> and
  the store, so the list of comments, stays as it was. In the page, \<open>handleAddComment\<close>
  with no user only shows the error toast and sends nothing, and the comment form is
  not rendered; the add button is disabled exactly when the text has no character
  other than tab, line feed, vertical tab, form feed, carriage return, space and
  no-break space (the empty text included), and then pressing it does nothing.
\<close>

theorem unauthenticated_cannot_comment:
  "AddComment st new_id rid None body now = Inl Unauthorized
   \<and> apply_call resolve st (Add_comment new_id rid None body now) = st
   \<and> handleAddComment None token rid' post_ok refetched dst =
      (dst, [Toast_error ''Please login to add comments''])
   \<and> requests_of (snd (handleAddComment None token rid' post_ok refetched dst)) = []
   \<and> \<not> commentFormRendered None dst
   \<and> (addCommentDisabled dst \<longleftrightarrow> whitespace_only (newComment dst))
   \<and> (whitespace_only (newComment dst) \<longrightarrow>
      clickAddComment usr token rid' post_ok refetched dst = (dst, []))"
proof -
  have "AddComment st new_id rid None body now = Inl Unauthorized"
    by (simp add: AddComment_def)
  moreover have "apply_call resolve st (Add_comment new_id rid None body now) = st"
    by (simp add: apply_call_def AddComment_def)
  moreover have "handleAddComment None token rid' post_ok refetched dst =
      (dst, [Toast_error ''Please login to add comments''])"
    by (simp add: handleAddComment_def)
  moreover have "requests_of (snd (handleAddComment None token rid' post_ok refetched dst)) = []"
    by (simp add: handleAddComment_def requests_of_def)
  moreover have "\<not> commentFormRendered None dst"
    by (simp add: commentFormRendered_def)
  moreover have d: "addCommentDisabled dst \<longleftrightarrow> whitespace_only (newComment dst)"
    by (simp add: addCommentDisabled_def truthy_def trim_empty_iff)
  moreover have "whitespace_only (newComment dst) \<longrightarrow>
      clickAddComment usr token rid' post_ok refetched dst = (dst, [])"
    using d by (simp add: clickAddComment_def)
  ultimately show ?thesis
    by blast
qed

text \<open>
  The text is a space, a no-break space and a tab: the button is disabled and pressing
  it changes nothing; the manager refuses a call without an actor.
\<close>

theorem unauthenticated_cannot_comment_witness:
  "newComment viewing = [CHR 0x20, CHR 0xA0, CHR 0x09] \<and>
   whitespace_only (newComment viewing) \<and>
   addCommentDisabled viewing \<and>
   clickAddComment (Some alice) (Some ''tok'') ''r1'' True None viewing = (viewing, []) \<and>
   AddComment one_report_store ''c1'' ''r1'' None ''hello'' 7 = Inl Unauthorized"
proof -
  have v: "newComment viewing = [CHR 0x20, CHR 0xA0, CHR 0x09]"
    by (simp add: viewing_def)
  have h: "whitespace_only (newComment viewing)"
    by (simp add: viewing_def whitespace_only_def white_space_characters_def)
  note t = unauthenticated_cannot_comment [of one_report_store "''c1''" "''r1''" "''hello''" 7
      resolver "Some ''tok''" "''r1''" True None viewing "Some alice"]
  from t h have "addCommentDisabled viewing"
    and "clickAddComment (Some alice) (Some ''tok'') ''r1'' True None viewing = (viewing, [])"
    by blast+
  moreover from t have "AddComment one_report_store ''c1'' ''r1'' None ''hello'' 7 = Inl Unauthorized"
    by blast
  ultimately show ?thesis
    using h v by blast
qed


section \<open>Redundant status updates\<close>

text \<open>
  Claim C5. The update button is disabled exactly when the selected status is the
  report's status and the status comment is the empty string, and a disabled button
  does nothing. The manager has no such guard: called by staff with the report's
  current status and no comment, it accepts the call and appends one more entry, with
  that status and a null comment, to the timeline.
\<close>

theorem redundant_update_disabled_in_client:
  "(updateStatusDisabled r dst \<longleftrightarrow> newStatus dst = status r \<and> statusComment dst = [])
   \<and> (report dst = Some r \<and> newStatus dst = status r \<and> statusComment dst = [] \<longrightarrow>
      clickUpdateStatus usr token rid put_ok refetched dst = (dst, []))
   \<and> (is_staff (Some actor) \<and> store_reports st rid' = Some sr \<and>
       rep_status sr \<in> set status_enum \<and> (cmt = None \<or> cmt = Some []) \<longrightarrow>
      (\<exists>st'. UpdateStatus st rid' actor (rep_status sr) cmt now = Inr st' \<and>
         (\<exists>r'. store_reports st' rid' = Some r' \<and>
            rep_status r' = rep_status sr \<and>
            rep_timeline r' = rep_timeline sr @
              [\<lparr>entry_status = rep_status sr, entry_comment = None,
                entry_actor = user_id actor, entry_timestamp = now\<rparr>])))"
proof -
  have a: "updateStatusDisabled r dst \<longleftrightarrow> newStatus dst = status r \<and> statusComment dst = []"
    by (simp add: updateStatusDisabled_def truthy_def)
  have b: "report dst = Some r \<and> newStatus dst = status r \<and> statusComment dst = [] \<longrightarrow>
      clickUpdateStatus usr token rid put_ok refetched dst = (dst, [])"
    using a by (simp add: clickUpdateStatus_def)
  have c: "is_staff (Some actor) \<and> store_reports st rid' = Some sr \<and>
       rep_status sr \<in> set status_enum \<and> (cmt = None \<or> cmt = Some []) \<longrightarrow>
      (\<exists>st'. UpdateStatus st rid' actor (rep_status sr) cmt now = Inr st' \<and>
         (\<exists>r'. store_reports st' rid' = Some r' \<and>
            rep_status r' = rep_status sr \<and>
            rep_timeline r' = rep_timeline sr @
              [\<lparr>entry_status = rep_status sr, entry_comment = None,
                entry_actor = user_id actor, entry_timestamp = now\<rparr>]))"
    by (auto simp: UpdateStatus_def is_staff_def Let_def)
  from a b c show ?thesis
    by blast
qed

text \<open>
  The page shows a resolved report with \<open>resolved\<close> selected and no comment: the
  button is disabled. The manager, asked by an admin to move an in-progress report to
  \<open>in_progress\<close>, appends a third entry to its two.
\<close>

theorem redundant_update_disabled_in_client_witness:
  "report viewing = Some pothole \<and> newStatus viewing = status pothole \<and> statusComment viewing = [] \<and>
   updateStatusDisabled pothole viewing \<and>
   clickUpdateStatus (Some ann) (Some ''tok'') ''r1'' True None viewing = (viewing, []) \<and>
   is_staff (Some ann) \<and> store_reports one_report_store ''r1'' = Some stored_pothole \<and>
   rep_status stored_pothole \<in> set status_enum \<and>
   (\<exists>st'. UpdateStatus one_report_store ''r1'' ann (rep_status stored_pothole) None 9 = Inr st' \<and>
      (\<exists>r'. store_reports st' ''r1'' = Some r' \<and> length (rep_timeline r') = 3))"
proof -
  have h1: "report viewing = Some pothole \<and> newStatus viewing = status pothole \<and> statusComment viewing = []"
    by (simp add: viewing_def pothole_def)
  have h2: "is_staff (Some ann) \<and> store_reports one_report_store ''r1'' = Some stored_pothole \<and>
      rep_status stored_pothole \<in> set status_enum \<and> ((None :: string option) = None \<or> None = Some [])"
    by (simp add: is_staff_def ann_def one_report_store_def stored_pothole_def status_enum_def)
  note t = redundant_update_disabled_in_client [of pothole viewing "Some ann" "Some ''tok''" "''r1''"
      True None ann one_report_store "''r1''" stored_pothole None 9]
  from t h1 have c1: "updateStatusDisabled pothole viewing"
    and c2: "clickUpdateStatus (Some ann) (Some ''tok'') ''r1'' True None viewing = (viewing, [])"
    by blast+
  from t h2 obtain st' r' where u: "UpdateStatus one_report_store ''r1'' ann (rep_status stored_pothole) None 9 = Inr st'"
    and r': "store_reports st' ''r1'' = Some r'"
    and tl: "rep_timeline r' = rep_timeline stored_pothole @
        [\<lparr>entry_status = rep_status stored_pothole, entry_comment = None,
          entry_actor = user_id ann, entry_timestamp = 9\<rparr>]"
    by blast
  from tl have "length (rep_timeline r') = 3"
    by (simp add: stored_pothole_def)
  with u r' h1 h2 c1 c2 show ?thesis
    by blast
qed



section \<open>Assigning a technician\<close>

text \<open>
  Claim C6. The manager refuses AssignTechnician from an actor who is not an admin with
  \<open>Forbidden\<close>, and from an admin with \<open>InvalidArgument\<close> when the target id does not
  name a technician; in either case, and whenever the target is not a technician, the
  store, so \<open>assigned_to\<close>, stays as it was. In the admin dashboard every assignment
  on offer names a user of the fetched list whose role is \<open>technician\<close>; for a visitor
  who is not an admin the effect shows the toast and navigates to the dashboard
  without any request or state change, and the page, still in its initial state,
  offers no assignment.
\<close>

theorem assignment_needs_admin_and_technician:
  "(role actor \<noteq> ''admin'' \<longrightarrow>
      AssignTechnician resolve st rid actor tid = Inl Forbidden \<and>
      apply_call resolve st (Assign_technician rid actor tid) = st)
   \<and> (role actor = ''admin'' \<and> \<not> is_technician_id resolve tid \<longrightarrow>
      AssignTechnician resolve st rid actor tid = Inl InvalidArgument)
   \<and> (\<not> is_technician_id resolve tid \<longrightarrow>
      apply_call resolve st (Assign_technician rid actor tid) = st)
   \<and> (\<forall>(rid', tech) \<in> set (assignOptions ast).
        role tech = ''technician'' \<and> tech \<in> set (users ast))
   \<and> (not_admin usr \<longrightarrow>
      adminEffect usr token response ast = (ast, [Toast_error ''Access denied'', Navigate ''/dashboard'']) \<and>
      requests_of (snd (adminEffect usr token response ast)) = [] \<and>
      assignOptions (fst (adminEffect usr token response admin_initial)) = [])"
proof -
  have nt: "\<not> is_technician_id resolve tid \<longleftrightarrow>
      (case resolve tid of None \<Rightarrow> True | Some t \<Rightarrow> role t \<noteq> ''technician'')"
    by (simp add: is_technician_id_def split: option.splits)
  have a: "role actor \<noteq> ''admin'' \<longrightarrow>
      AssignTechnician resolve st rid actor tid = Inl Forbidden \<and>
      apply_call resolve st (Assign_technician rid actor tid) = st"
    by (simp add: AssignTechnician_def apply_call_def)
  have b: "role actor = ''admin'' \<and> \<not> is_technician_id resolve tid \<longrightarrow>
      AssignTechnician resolve st rid actor tid = Inl InvalidArgument"
    by (simp add: AssignTechnician_def nt)
  have c: "\<not> is_technician_id resolve tid \<longrightarrow>
      apply_call resolve st (Assign_technician rid actor tid) = st"
    by (simp add: AssignTechnician_def apply_call_def nt)
  have d: "\<forall>(rid', tech) \<in> set (assignOptions ast).
      role tech = ''technician'' \<and> tech \<in> set (users ast)"
    using assignOptions_technicians by blast
  have e: "not_admin usr \<longrightarrow>
      adminEffect usr token response ast = (ast, [Toast_error ''Access denied'', Navigate ''/dashboard'']) \<and>
      requests_of (snd (adminEffect usr token response ast)) = [] \<and>
      assignOptions (fst (adminEffect usr token response admin_initial)) = []"
    by (simp add: not_admin_def adminEffect_def requests_of_def assignOptions_def admin_initial_def)
  from a b c d e show ?thesis
    by blast
qed

text \<open>
  A technician may not assign; an admin may not assign to Alice, a plain user; the
  loaded table offers Tom, a technician, for the unassigned pothole report; Alice is
  sent away from the admin dashboard.
\<close>

theorem assignment_needs_admin_and_technician_witness:
  "role tom \<noteq> ''admin'' \<and>
   AssignTechnician resolver one_report_store ''r1'' tom ''t1'' = Inl Forbidden \<and>
   role ann = ''admin'' \<and> \<not> is_technician_id resolver ''u1'' \<and>
   AssignTechnician resolver one_report_store ''r1'' ann ''u1'' = Inl InvalidArgument \<and>
   apply_call resolver one_report_store (Assign_technician ''r1'' ann ''u1'') = one_report_store \<and>
   (''r1'', tom) \<in> set (assignOptions admin_loaded) \<and> role tom = ''technician'' \<and>
   not_admin (Some alice) \<and>
   adminEffect (Some alice) (Some ''tok'') (Some ([pothole], [tom])) admin_initial =
     (admin_initial, [Toast_error ''Access denied'', Navigate ''/dashboard''])"
proof -
  have roles: "role tom \<noteq> ''admin''" "role ann = ''admin''" "role alice = ''user''"
    by (simp_all add: tom_def ann_def alice_def)
  have nt: "\<not> is_technician_id resolver ''u1''"
    by (simp add: is_technician_id_def resolver_def alice_def)
  have na: "not_admin (Some alice)"
    by (simp add: not_admin_def alice_def)
  have opt: "(''r1'', tom) \<in> set (assignOptions admin_loaded)"
    by (simp add: assignOptions_def admin_loaded_def adminFilteredReports_def matchesSearch_empty
        matchesStatus_def matchesCategory_def truthy_def technicians_def
        pothole_def leak_def lamp_def alice_def ann_def tom_def)
  note t1 = assignment_needs_admin_and_technician [of tom resolver one_report_store "''r1''" "''t1''"
      admin_loaded "Some alice" "Some ''tok''" "Some ([pothole], [tom])"]
  note t2 = assignment_needs_admin_and_technician [of ann resolver one_report_store "''r1''" "''u1''"
      admin_loaded "Some alice" "Some ''tok''" "Some ([pothole], [tom])"]
  from t1 roles(1) have f: "AssignTechnician resolver one_report_store ''r1'' tom ''t1'' = Inl Forbidden"
    by blast
  from t2 roles(2) nt have i: "AssignTechnician resolver one_report_store ''r1'' ann ''u1'' = Inl InvalidArgument"
    and u: "apply_call resolver one_report_store (Assign_technician ''r1'' ann ''u1'') = one_report_store"
    by blast+
  from t1 opt have rt: "role tom = ''technician''"
    by blast
  note t3 = assignment_needs_admin_and_technician [of tom resolver one_report_store "''r1''" "''t1''"
      admin_initial "Some alice" "Some ''tok''" "Some ([pothole], [tom])"]
  from t3 na have "adminEffect (Some alice) (Some ''tok'') (Some ([pothole], [tom])) admin_initial =
      (admin_initial, [Toast_error ''Access denied'', Navigate ''/dashboard''])"
    by blast
  with roles nt na opt f i u rt show ?thesis
    by blast
qed


end
